theory Spec2Isabelle
  imports Main "HOL-Library.Log_Nat" "HOL-Library.Signed_Division"
begin

section \<open>ExaConstit mechanics driver (miniapps/exaconstit/mechanics_driver.cpp)\<close>

text \<open>
  The driver is a single C++ file on top of the MFEM library. The parts written in the
  file itself are embedded here: the material-argument validator
  \<open>checkMaterialArgs\<close>, the opening of the input files in \<open>main\<close>, the constructor
  and \<open>Solve\<close> of \<open>NonlinearMechOperator\<close>, the boundary function
  \<open>NonZeroBdrFunc\<close>, the grain loader \<open>setGrainData\<close> and the time loop of \<open>main\<close>.
  What MFEM, MPI and the C++ runtime do is taken as a parameter wherever the driver's own
  control flow consults it.
\<close>

subsection \<open>Failures of the C++ program\<close>

text \<open>
  A dereference of a null or of a never-assigned pointer, an index outside an array and an
  integer division by zero are undefined behaviour in C++; the model stops with an error
  value at that point. \<open>VerifyFailed\<close> is the abort of MFEM's always-on check
  \<open>MFEM_VERIFY\<close>.
\<close>

datatype cpp_error =
    NullPointerDereference
  | UninitialisedPointer
  | OutOfBounds
  | DivisionByZero
  | VerifyFailed string

subsection \<open>checkMaterialArgs (lines 758-814)\<close>

text \<open>
  The seven parameters of \<open>checkMaterialArgs\<close>. The function receives them by value, so
  this record is the callee's own frame: assignments to it are assignments to the copies.
\<close>

record material_args =
  hyperelastic :: bool
  umat :: bool
  cp :: bool
  grain_euler :: bool
  grain_q :: bool
  grain_uniform :: bool
  ngrains :: int

text \<open>
  The body, run on the callee's frame. It returns the value of \<open>err\<close>, the lines sent to
  \<open>std::cout\<close> (line breaks left out) and the frame as it stands at the \<open>return\<close>.
  The five tests form one \<open>if / else if\<close> chain, in the order of the source.
\<close>

definition checkMaterialArgs_body :: "material_args \<Rightarrow> int \<times> string list \<times> material_args" where
  "checkMaterialArgs_body a0 =
    (let a1 = (if hyperelastic a0
               then a0\<lparr>umat := False, cp := False, grain_euler := False,
                       grain_q := False, grain_uniform := False\<rparr>
               else a0);
         out1 = (if hyperelastic a0
                 then [''Hyperelastic set to true; using Neohookean model''] else []);
         a2 = (if umat a1
               then a1\<lparr>grain_euler := False, grain_q := False, grain_uniform := False\<rparr>
               else a1);
         res = (if cp a2 \<and> \<not> grain_euler a2 \<and> \<not> grain_q a2 \<and> \<not> grain_uniform a2
                then (1, [''Must specify grain data type for use with cp input arg.''])
                else if cp a2 \<and> grain_euler a2 \<and> grain_q a2
                then (1, [''Cannot specify euler and quaternion grain data input args.''])
                else if cp a2 \<and> grain_euler a2 \<and> grain_uniform a2
                then (1, [''Cannot specify euler and uniform grain data input args.''])
                else if cp a2 \<and> grain_q a2 \<and> grain_uniform a2
                then (1, [''Cannot specify quaternion and uniform grain data input args.''])
                else if cp a2 \<and> ngrains a2 < 1
                then (1, [''Specify number of grains for use with cp input arg.''])
                else (0, []))
     in (fst res, out1 @ snd res, a2))"

text \<open>The call as the caller sees it: seven values in, the \<open>int\<close> out.\<close>

definition checkMaterialArgs ::
    "bool \<Rightarrow> bool \<Rightarrow> bool \<Rightarrow> bool \<Rightarrow> bool \<Rightarrow> bool \<Rightarrow> int \<Rightarrow> int" where
  "checkMaterialArgs h u c ge gq gu n =
     fst (checkMaterialArgs_body
            \<lparr>hyperelastic = h, umat = u, cp = c, grain_euler = ge, grain_q = gq,
             grain_uniform = gu, ngrains = n\<rparr>)"

text \<open>Exactly one of the three orientation representations is chosen.\<close>

definition exactly_one_orientation :: "bool \<Rightarrow> bool \<Rightarrow> bool \<Rightarrow> bool" where
  "exactly_one_orientation ge gq gu =
     ((ge \<and> \<not> gq \<and> \<not> gu) \<or> (\<not> ge \<and> gq \<and> \<not> gu) \<or> (\<not> ge \<and> \<not> gq \<and> gu))"

subsection \<open>Double-precision numbers\<close>

text \<open>
  A finite \<open>double\<close> is the rational number it denotes. Every arithmetic operation of
  IEEE 754 binary64 returns the exact result rounded to the nearest representable number,
  ties to the even significand; \<open>fl\<close> is that rounding: 53 significant bits in the binade
  of the argument, and the fixed spacing \<open>2 ^ - 1074\<close> below \<open>2 ^ - 1022\<close>. Overflow to
  infinity, NaN and the sign of zero are outside the model; no value of the time loop
  comes near them. Each operation is rounded on its own (no fused multiply-add). A
  decimal literal and a number parsed from the command line are the rounding of the
  decimal they spell.
\<close>

type_synonym double = rat

definition pow2 :: "int \<Rightarrow> rat" where
  "pow2 e = (if 0 \<le> e then 2 ^ nat e else 1 / 2 ^ nat (- e))"

text \<open>The exponent \<open>e\<close> with \<open>2 ^ e \<le> \<bar>x\<bar> < 2 ^ (e + 1)\<close>, for \<open>x \<noteq> 0\<close>.\<close>

definition binade :: "rat \<Rightarrow> int" where
  "binade x =
    (let a = \<bar>x\<bar>
     in if 1 \<le> a then bitlen \<lfloor>a\<rfloor> - 1 else - bitlen (\<lceil>1 / a\<rceil> - 1))"

text \<open>Rounding to the nearest integer, a tie to the even one.\<close>

definition round_half_even :: "rat \<Rightarrow> int" where
  "round_half_even y =
    (let f = \<lfloor>y\<rfloor>; r = y - of_int f
     in if r < 1 / 2 then f else if 1 / 2 < r then f + 1 else if even f then f else f + 1)"

definition fl :: "rat \<Rightarrow> double" where
  "fl x =
    (if x = 0 then 0
     else let u = pow2 (max (binade x) (- 1022) - 52)
          in of_int (round_half_even (x / u)) * u)"

definition dadd :: "double \<Rightarrow> double \<Rightarrow> double" where
  "dadd a b = fl (a + b)"

definition dsub :: "double \<Rightarrow> double \<Rightarrow> double" where
  "dsub a b = fl (a - b)"

definition dmul :: "double \<Rightarrow> double \<Rightarrow> double" where
  "dmul a b = fl (a * b)"

text \<open>\<open>std::min(a, b)\<close> is \<open>(b < a) ? b : a\<close>.\<close>

definition std_min :: "double \<Rightarrow> double \<Rightarrow> double" where
  "std_min a b = (if b < a then b else a)"

text \<open>
  The counter \<open>ti\<close> of the time loop is a 32-bit \<open>int\<close>; its increment is written with
  the two's-complement wrap-around. \<open>%\<close> on \<open>int\<close> truncates towards zero, which is
  \<open>smod\<close>.
\<close>

definition wrap32 :: "int \<Rightarrow> int" where
  "wrap32 k = (k + 2 ^ 31) mod 2 ^ 32 - 2 ^ 31"

subsection \<open>main: validation and opening of the input files (lines 223-288)\<close>

text \<open>
  The variables of \<open>main\<close> that the embedded parts of the program read: the rank
  \<open>myid\<close>, the command-line options under their names in the source, and the seven
  variables handed to \<open>checkMaterialArgs\<close> (the fields of \<open>material_args\<close>, which carry
  the same names in \<open>main\<close>).
\<close>

record main_vars = material_args +
  myid :: int
  mesh_file :: string
  grain_file :: string
  cubit :: bool
  t_final :: double
  dt :: double
  gmres_solver :: bool
  slu_solver :: bool
  vis_steps :: int

text \<open>
  What the run finds outside the program: whether the option parser accepted the command
  line (\<open>args.Good()\<close>), whether an \<open>ifstream\<close> on a file name opens, and whether MFEM's
  constructor \<open>Mesh(mesh_file, 1, 1)\<close> of the Cubit branch comes back.
\<close>

record run_env =
  args_Good :: bool
  ifstream_opens :: "string \<Rightarrow> bool"
  Mesh_from_file_returns :: "string \<Rightarrow> bool"

text \<open>
  What the run prints and the call of \<open>MPI_Finalize\<close>, in order. The text of a message
  is kept without its line breaks.
\<close>

datatype event =
    PrintUsage
  | PrintOptions
  | Cout string
  | Cerr string
  | MPI_Finalize

text \<open>
  How this part of \<open>main\<close> ends: a \<open>return\<close> with its exit status, a failure inside the
  library's mesh constructor, or control reaching line 288 with the variables of \<open>main\<close>
  and the value of \<open>err\<close>.
\<close>

datatype main_outcome =
    Return int
  | LibraryFailure
  | Proceed main_vars int

definition call_checkMaterialArgs :: "main_vars \<Rightarrow> int" where
  "call_checkMaterialArgs v =
     checkMaterialArgs (hyperelastic v) (umat v) (cp v) (grain_euler v) (grain_q v)
       (grain_uniform v) (ngrains v)"

definition cout_checkMaterialArgs :: "main_vars \<Rightarrow> event list" where
  "cout_checkMaterialArgs v =
     map Cout (fst (snd (checkMaterialArgs_body (material_args.truncate v))))"

text \<open>Lines 238-244: the call and the report of its result. Nothing here returns.\<close>

definition main_validate :: "main_vars \<Rightarrow> event list \<times> int" where
  "main_validate v =
    (let err = call_checkMaterialArgs v
     in (cout_checkMaterialArgs v @
         (if err = 1 \<and> myid v = 0
          then [Cerr ''Inconsistent material input; check args''] else []),
         err))"

text \<open>Lines 279-286: the grain file is opened and a failure is printed by rank 0.\<close>

definition main_grain_file :: "run_env \<Rightarrow> main_vars \<Rightarrow> event list" where
  "main_grain_file env v =
    (if cp v
     then (if \<not> ifstream_opens env (grain_file v) \<and> myid v = 0
           then [Cerr (''Can not open grain file: '' @ grain_file v)] else [])
     else [])"

text \<open>
  Lines 245-288: the mesh is read (by the library for a Cubit mesh, through an
  \<open>ifstream\<close> otherwise), refined and partitioned by the library, and the grain file is
  checked.
\<close>

definition main_open_files :: "run_env \<Rightarrow> main_vars \<Rightarrow> int \<Rightarrow> event list \<times> main_outcome" where
  "main_open_files env v err =
    (if cubit v
     then (if Mesh_from_file_returns env (mesh_file v)
           then (main_grain_file env v, Proceed v err)
           else ([], LibraryFailure))
     else if \<not> ifstream_opens env (mesh_file v)
     then ((if myid v = 0 then [Cerr (''Can not open mesh file: '' @ mesh_file v)] else [])
            @ [MPI_Finalize], Return 2)
     else (main_grain_file env v, Proceed v err))"

text \<open>Lines 223-288.\<close>

definition main_inputs :: "run_env \<Rightarrow> main_vars \<Rightarrow> event list \<times> main_outcome" where
  "main_inputs env v =
    (if \<not> args_Good env
     then ((if myid v = 0 then [PrintUsage] else []) @ [MPI_Finalize], Return 1)
     else
       let log0 = (if myid v = 0 then [PrintOptions] else []);
           val = main_validate v;
           fin = main_open_files env v (snd val)
       in (log0 @ fst val @ fst fin, snd fin))"

text \<open>The defaults of lines 145-166, on a given rank.\<close>

definition default_vars :: "int \<Rightarrow> main_vars" where
  "default_vars rank =
    \<lparr>hyperelastic = False, umat = False, cp = False, grain_euler = False, grain_q = False,
     grain_uniform = False, ngrains = 0, myid = rank,
     mesh_file = ''../../data/beam-hex.mesh'', grain_file = ''grains.txt'', cubit = False,
     t_final = fl 300, dt = fl 3, gmres_solver = True, slu_solver = False, vis_steps = 1\<rparr>"

subsection \<open>Pointers\<close>

text \<open>
  A pointer variable is never assigned (\<open>Uninit\<close>), null, or points to an object.
  \<open>Ptr a\<close> carries the object itself where the pointer owns it, and \<open>()\<close> where the
  object belongs to the caller and is passed along as state.
\<close>

datatype 'a ptr = Uninit | Null | Ptr 'a

definition deref :: "'a ptr \<Rightarrow> cpp_error + 'a" where
  "deref p =
    (case p of Uninit \<Rightarrow> Inl UninitialisedPointer
             | Null \<Rightarrow> Inl NullPointerDereference
             | Ptr a \<Rightarrow> Inr a)"

subsection \<open>NonlinearMechOperator: the constructor (lines 542-652)\<close>

datatype constitutive = AbaqusUmatModel | NeoHookeanModel double double

datatype integrator =
    UserDefinedNLFIntegrator constitutive
  | HyperelasticNLFIntegrator constitutive

text \<open>
  The library's \<open>ParNonlinearForm\<close>, as far as the constructor touches it: the marker
  array given to \<open>SetEssentialBC\<close> and the domain integrators added.
\<close>

record ParNonlinearForm =
  EssentialBC :: "int list option"
  DomainIntegrators :: "integrator list"

datatype jacobian_solver =
    GMRESSolver double double int
  | SuperLUSolver
  | MINRESSolver double double int

datatype preconditioner = HypreBoomerAMG | HypreSmoother_l1Jacobi

text \<open>
  The members the constructor assigns. \<open>Jacobian\<close> and \<open>x\<close> are not touched by it and are
  left out. The three numbers of \<open>newton_solver\<close> are its relative tolerance, absolute
  tolerance and iteration cap; \<open>None\<close> until the constructor sets them.
\<close>

record mech_operator =
  Hform :: "ParNonlinearForm ptr"
  model :: "constitutive ptr"
  J_solver :: "jacobian_solver ptr"
  J_prec :: "preconditioner ptr"
  newton_solver :: "(double \<times> double \<times> int) option"

text \<open>
  The object after the member initialisers of line 552-553: they initialise the base
  class, \<open>fe_space\<close> and \<open>newton_solver\<close>; no pointer member has an initialiser.
\<close>

definition after_member_init :: mech_operator where
  "after_member_init =
    \<lparr>Hform = Uninit, model = Uninit, J_solver = Uninit, J_prec = Uninit,
     newton_solver = None\<rparr>"

text \<open>Line 559: \<open>Hform->SetEssentialBC(ess_bdr, rhs)\<close>.\<close>

definition ctor_SetEssentialBC :: "int list \<Rightarrow> mech_operator \<Rightarrow> cpp_error + mech_operator" where
  "ctor_SetEssentialBC bdr this =
    (case deref (Hform this) of
       Inl e \<Rightarrow> Inl e
     | Inr f \<Rightarrow> Inr (this\<lparr>Hform := Ptr (f\<lparr>EssentialBC := Some bdr\<rparr>)\<rparr>))"

text \<open>Line 585: \<open>Hform = new ParNonlinearForm(&fes)\<close>.\<close>

definition ctor_new_Hform :: "mech_operator \<Rightarrow> mech_operator" where
  "ctor_new_Hform this =
     this\<lparr>Hform := Ptr \<lparr>EssentialBC = None, DomainIntegrators = []\<rparr>\<rparr>"

text \<open>
  Lines 588-598: the constitutive model and its integrator. The test of \<open>umat\<close> comes
  first; \<open>hyperelastic\<close> is looked at only when \<open>umat\<close> is false.
\<close>

definition ctor_model :: "bool \<Rightarrow> bool \<Rightarrow> mech_operator \<Rightarrow> cpp_error + mech_operator" where
  "ctor_model u h this =
    (if u
     then (case deref (Hform this) of
             Inl e \<Rightarrow> Inl e
           | Inr f \<Rightarrow>
               Inr (this\<lparr>model := Ptr AbaqusUmatModel,
                         Hform := Ptr (f\<lparr>DomainIntegrators := DomainIntegrators f @
                                   [UserDefinedNLFIntegrator AbaqusUmatModel]\<rparr>)\<rparr>))
     else if h
     then (case deref (Hform this) of
             Inl e \<Rightarrow> Inl e
           | Inr f \<Rightarrow>
               Inr (this\<lparr>model := Ptr (NeoHookeanModel (fl (1 / 4)) (fl 5)),
                         Hform := Ptr (f\<lparr>DomainIntegrators := DomainIntegrators f @
                                   [HyperelasticNLFIntegrator
                                      (NeoHookeanModel (fl (1 / 4)) (fl 5))]\<rparr>)\<rparr>))
     else Inr this)"

text \<open>Lines 600-642: the linear solver of the Newton iteration and its preconditioner.\<close>

definition ctor_solver :: "double \<Rightarrow> bool \<Rightarrow> bool \<Rightarrow> mech_operator \<Rightarrow> mech_operator" where
  "ctor_solver rel_tol gmres slu this =
    (if gmres
     then this\<lparr>J_prec := Ptr HypreBoomerAMG,
               J_solver := Ptr (GMRESSolver rel_tol (fl (1 / 10 ^ 12)) 300)\<rparr>
     else if slu
     then this\<lparr>J_solver := Ptr SuperLUSolver, J_prec := Null\<rparr>
     else this\<lparr>J_prec := Ptr HypreSmoother_l1Jacobi,
               J_solver := Ptr (MINRESSolver rel_tol 0 300)\<rparr>)"

text \<open>
  The constructor, statement by statement. Its arguments \<open>fes\<close> and \<open>q_matVars0\<close> are
  library objects and are left out, as are lines 561-582, which build the local
  quadrature functions for stress, tangent and history and assign no member.
\<close>

definition NonlinearMechOperator ::
    "int list \<Rightarrow> double \<Rightarrow> double \<Rightarrow> int \<Rightarrow> bool \<Rightarrow> bool \<Rightarrow> bool \<Rightarrow> bool
       \<Rightarrow> cpp_error + mech_operator" where
  "NonlinearMechOperator bdr rel_tol abs_tol iter gmres slu h u =
    (case ctor_SetEssentialBC bdr after_member_init of
       Inl e \<Rightarrow> Inl e
     | Inr this1 \<Rightarrow>
         (case ctor_model u h (ctor_new_Hform this1) of
            Inl e \<Rightarrow> Inl e
          | Inr this2 \<Rightarrow>
              Inr ((ctor_solver rel_tol gmres slu this2)
                     \<lparr>newton_solver := Some (rel_tol, abs_tol, iter)\<rparr>)))"

text \<open>
  Lines 413-416: \<open>main\<close> constructs the operator from its own variables
  \<open>hyperelastic\<close> and \<open>umat\<close>, with \<open>ess_bdr\<close> all zero.
\<close>

definition main_construct ::
    "main_vars \<Rightarrow> nat \<Rightarrow> double \<Rightarrow> double \<Rightarrow> int \<Rightarrow> cpp_error + mech_operator" where
  "main_construct v n_bdr newton_rel_tol newton_abs_tol newton_iter =
     NonlinearMechOperator (replicate n_bdr 0) newton_rel_tol newton_abs_tol newton_iter
       (gmres_solver v) (slu_solver v) (hyperelastic v) (umat v)"

subsection \<open>NonlinearMechOperator::Solve (lines 655-661)\<close>

text \<open>
  \<open>newton_solver.Mult(zero, x)\<close> is the library's Newton iteration, with the tolerances and
  the iteration cap set in the constructor: it overwrites \<open>x\<close> and sets the solver's
  \<open>converged\<close> flag. It is a parameter here, returning both. \<open>MFEM_VERIFY\<close> aborts the
  run when its condition is false.
\<close>

definition Solve :: "('v \<Rightarrow> 'v \<times> bool) \<Rightarrow> 'v \<Rightarrow> cpp_error + 'v" where
  "Solve newton_Mult x0 =
    (let r = newton_Mult x0
     in if snd r then Inr (fst r) else Inl (VerifyFailed ''Newton Solver did not converge.''))"

subsection \<open>NonZeroBdrFunc (lines 739-751)\<close>

text \<open>
  \<open>y\<close> arrives with the size the caller gave it (the space dimension). \<open>y = 0.\<close> sets every
  entry to zero; \<open>y[2] = -.1\<close> writes the third entry, which is outside the vector when it
  has fewer than three.
\<close>

definition NonZeroBdrFunc :: "double list \<Rightarrow> double \<Rightarrow> double list \<Rightarrow> cpp_error + double list" where
  "NonZeroBdrFunc xs tm y =
    (let y0 = replicate (length y) 0
     in if 2 < length y0 then Inr (y0[2 := - fl (1 / 10)]) else Inl OutOfBounds)"

subsection \<open>setGrainData (lines 816-870)\<close>

text \<open>
  The caller's \<open>QuadratureFunction\<close>: the number of values per quadrature point and the
  flat array of values.
\<close>

record QuadratureFunction =
  vdim :: int
  qf_data :: "double list"

text \<open>
  What \<open>setGrainData\<close> asks of the finite-element space, the mesh, the integration rules
  and the \<open>QuadratureFunction\<close> class:
  \<open>fe_space->GetNE()\<close>, \<open>fe_space->GetAttribute(i)\<close>, the array \<open>pmesh->attributes\<close>, the
  number of points of \<open>IntRules.Get(fe->GetGeomType(), 2*fe->GetOrder() + 3)\<close> for element
  \<open>i\<close>, the effect of \<open>SetSpace(qspace, grain_offset)\<close> on the function, and for
  \<open>GetElementValues(i, elem_vec)\<close> the position in the flat array at which \<open>elem_vec\<close>
  (which shares the function's storage) begins.
\<close>

record grain_lib =
  GetNE :: nat
  GetAttribute :: "nat \<Rightarrow> int"
  attributes :: "int list"
  ir_GetNPoints :: "nat \<Rightarrow> nat"
  SetSpace :: "int \<Rightarrow> QuadratureFunction \<Rightarrow> QuadratureFunction"
  GetElementValues :: "nat \<Rightarrow> QuadratureFunction \<Rightarrow> nat"

text \<open>A counting \<open>for\<close> loop over the given indices; it stops at the first failure.\<close>

fun for_each :: "nat list \<Rightarrow> (nat \<Rightarrow> 's \<Rightarrow> cpp_error + 's) \<Rightarrow> 's \<Rightarrow> cpp_error + 's" where
  "for_each [] body s = Inr s"
| "for_each (n # ns) body s =
     (case body n s of Inl e \<Rightarrow> Inl e | Inr s' \<Rightarrow> for_each ns body s')"

text \<open>
  Line 866: \<open>elem_data[k + grain_offset * j] = grain_data[k + grain_offset * elem_atr]\<close>,
  both through raw pointers; \<open>elem_data\<close> begins at position \<open>start\<close> of the function's
  array.
\<close>

definition copy_component ::
    "double list \<Rightarrow> int \<Rightarrow> int \<Rightarrow> nat \<Rightarrow> nat \<Rightarrow> nat \<Rightarrow> QuadratureFunction
       \<Rightarrow> cpp_error + QuadratureFunction" where
  "copy_component grain_data grain_offset elem_atr start j k q =
    (let src = int k + grain_offset * elem_atr;
         dst = int start + (int k + grain_offset * int j)
     in if src < 0 \<or> int (length grain_data) \<le> src then Inl OutOfBounds
        else if dst < 0 \<or> int (length (qf_data q)) \<le> dst then Inl OutOfBounds
        else Inr (q\<lparr>qf_data := (qf_data q)[nat dst := grain_data ! nat src]\<rparr>))"

text \<open>
  Lines 841-868, the body of the loop over the elements: the attribute is looked up in
  \<open>pmesh->attributes\<close>, then \<open>GetElementValues\<close> is called through the local pointer
  \<open>matVars\<close>, then the two inner loops copy.
\<close>

definition grain_element ::
    "grain_lib \<Rightarrow> double list \<Rightarrow> int \<Rightarrow> unit ptr \<Rightarrow> nat \<Rightarrow> QuadratureFunction
       \<Rightarrow> cpp_error + QuadratureFunction" where
  "grain_element lib grain_data grain_offset matVars i q =
    (let a = GetAttribute lib i
     in if a < 0 \<or> int (length (attributes lib)) \<le> a then Inl OutOfBounds
        else
          let elem_atr = attributes lib ! nat a
          in case deref matVars of
               Inl e \<Rightarrow> Inl e
             | Inr _ \<Rightarrow>
                 let start = GetElementValues lib i q
                 in for_each [0..<ir_GetNPoints lib i]
                      (\<lambda>j. for_each [0..<nat grain_offset]
                             (copy_component grain_data grain_offset elem_atr start j))
                      q)"

text \<open>
  The function. \<open>q0\<close> is the caller's object, to which the parameter \<open>matVars\<close> points on
  entry. Line 824 calls \<open>SetSpace\<close> through it. Line 825, \<open>matVars = 0;\<close>, assigns to the
  pointer, not to the object: from there on the local \<open>matVars\<close> is null.
\<close>

definition setGrainData ::
    "grain_lib \<Rightarrow> double list \<Rightarrow> int \<Rightarrow> QuadratureFunction \<Rightarrow> cpp_error + QuadratureFunction" where
  "setGrainData lib g_orient grain_offset q0 =
    (let q1 = SetSpace lib grain_offset q0;
         matVars = Null
     in for_each [0..<GetNE lib] (grain_element lib g_orient grain_offset matVars) q1)"

subsection \<open>main: the time loop (lines 441-532)\<close>

text \<open>
  The library operations of the loop body, on grid functions \<open>'g\<close> and true-dof vectors
  \<open>'v\<close>: \<open>ProjectBdrCoefficient\<close> (given the time set on the coefficient and the marker
  array), \<open>add\<close>, \<open>GetTrueDofs\<close>, \<open>Distribute\<close>, \<open>subtract\<close>, and the Newton iteration
  behind \<open>oper.Solve\<close> at step \<open>ti\<close>.
\<close>

record ('g, 'v) mfem_ops =
  ProjectBdrCoefficient :: "double \<Rightarrow> int list \<Rightarrow> 'g \<Rightarrow> 'g"
  add_gf :: "'g \<Rightarrow> 'g \<Rightarrow> 'g"
  GetTrueDofs :: "'g \<Rightarrow> 'v"
  Distribute :: "'v \<Rightarrow> 'g"
  subtract_gf :: "'g \<Rightarrow> 'g \<Rightarrow> 'g"
  newton_Mult :: "int \<Rightarrow> 'v \<Rightarrow> 'v \<times> bool"

text \<open>
  The two files written at the end of every pass, named
  \<open>mesh.<myid>_<ti>\<close> and \<open>deformation.<myid>_<ti>\<close> with \<open>myid\<close> padded to six digits.
\<close>

datatype snapshot = MeshFile int int | DeformationFile int int

text \<open>
  The variables the loop changes: \<open>t_sim\<close> is \<open>t\<close> and \<open>x_sol\<close> is \<open>x\<close> of the source;
  \<open>reported\<close> collects the pairs of \<open>cout << "step " << ti << ", t = " << t\<close>, and
  \<open>written\<close> the files.
\<close>

record ('g, 'v) driver_state =
  t_sim :: double
  ti :: int
  last_step :: bool
  ess_bdr :: "int list"
  x_gf :: 'g
  x_ref :: 'g
  x_def :: 'g
  x_non_zero_ess :: 'g
  x_bar_gf :: 'g
  x_sol :: 'v
  reported :: "(int \<times> double) list"
  written :: "snapshot list"

text \<open>Lines 479-531, once the solve has returned: reporting, state update, output.\<close>

definition after_solve ::
    "('g, 'v) mfem_ops \<Rightarrow> main_vars \<Rightarrow> bool \<Rightarrow> bool \<Rightarrow> ('g, 'v) driver_state
       \<Rightarrow> ('g, 'v) driver_state" where
  "after_solve lib v lst vis s =
    (let s1 = (if vis
               then s\<lparr>x_gf := Distribute lib (x_sol s),
                       x_def := subtract_gf lib (Distribute lib (x_sol s)) (x_ref s),
                       reported := reported s @
                         (if myid v = 0 then [(ti s, t_sim s)] else [])\<rparr>
               else s);
         s2 = (if \<not> lst
               then s1\<lparr>x_gf := Distribute lib (x_sol s1),
                        x_def := subtract_gf lib (Distribute lib (x_sol s1)) (x_ref s1),
                        x_ref := Distribute lib (x_sol s1)\<rparr>
               else s1)
     in s2\<lparr>written := written s2 @
              [MeshFile (myid v) (ti s2), DeformationFile (myid v) (ti s2)]\<rparr>)"

text \<open>
  Lines 450-453: \<open>dt_real = min(dt, t_final - t); t = t + dt_real\<close>, and line 477:
  \<open>last_step = (t >= t_final - 1e-8*dt)\<close>, in double arithmetic.
\<close>

definition next_time :: "double \<Rightarrow> double \<Rightarrow> double \<Rightarrow> double" where
  "next_time step_size final tm = dadd tm (std_min step_size (dsub final tm))"

definition reached_final :: "double \<Rightarrow> double \<Rightarrow> double \<Rightarrow> bool" where
  "reached_final step_size final tm =
     (dsub final (dmul (fl (1 / 10 ^ 8)) step_size) \<le> tm)"

text \<open>
  One pass of the loop (lines 447-531) followed by the increment \<open>ti++\<close>.
  \<open>ess_bdr[1] = 1\<close> is outside the marker array when the mesh has fewer than two boundary
  attributes; \<open>ti % vis_steps\<close> is evaluated only when \<open>last_step\<close> is false.
\<close>

definition time_step ::
    "('g, 'v) mfem_ops \<Rightarrow> main_vars \<Rightarrow> ('g, 'v) driver_state
       \<Rightarrow> cpp_error + ('g, 'v) driver_state" where
  "time_step lib v s =
    (let t1 = next_time (dt v) (t_final v) (t_sim s);
         bdr0 = replicate (length (ess_bdr s)) 0
     in if length bdr0 \<le> 1 then Inl OutOfBounds
        else
          let bdr1 = bdr0[1 := 1];
              nz = ProjectBdrCoefficient lib t1 bdr1 (x_non_zero_ess s);
              bdr2 = bdr1[0 := 1];
              xbar = add_gf lib nz (x_gf s)
          in case Solve (newton_Mult lib (ti s)) (GetTrueDofs lib xbar) of
               Inl e \<Rightarrow> Inl e
             | Inr x1 \<Rightarrow>
                 let lst = reached_final (dt v) (t_final v) t1
                 in if \<not> lst \<and> vis_steps v = 0 then Inl DivisionByZero
                    else
                      let s' = after_solve lib v lst (lst \<or> ti s smod vis_steps v = 0)
                                 (s\<lparr>t_sim := t1, last_step := lst, ess_bdr := bdr2,
                                    x_non_zero_ess := nz, x_bar_gf := xbar, x_sol := x1\<rparr>)
                      in Inr (s'\<lparr>ti := wrap32 (ti s' + 1)\<rparr>))"

text \<open>
  \<open>for (int ti = 1; !last_step; ti++)\<close>. The loop need not end, so the result is an
  \<open>option\<close>: \<open>None\<close> when it runs forever, \<open>Some (Inl e)\<close> when a pass fails, and
  \<open>Some (Inr s)\<close> with the state at the exit.
\<close>

partial_function (option) time_loop ::
    "('g, 'v) mfem_ops \<Rightarrow> main_vars \<Rightarrow> ('g, 'v) driver_state
       \<Rightarrow> (cpp_error + ('g, 'v) driver_state) option" where
  "time_loop lib v s =
    (if last_step s then Some (Inr s)
     else case time_step lib v s of
            Inl e \<Rightarrow> Some (Inl e)
          | Inr s' \<Rightarrow> time_loop lib v s')"

text \<open>Lines 442-445 and the state built before them: \<open>t = 0\<close>, \<open>ti = 1\<close>, no last step.\<close>

definition loop_start :: "nat \<Rightarrow> 'g \<Rightarrow> 'g \<Rightarrow> 'g \<Rightarrow> 'g \<Rightarrow> 'g \<Rightarrow> 'v \<Rightarrow> ('g, 'v) driver_state" where
  "loop_start n_bdr gf rf df nz xbar x0 =
    \<lparr>t_sim = 0, ti = 1, last_step = False, ess_bdr = replicate n_bdr 0,
     x_gf = gf, x_ref = rf, x_def = df, x_non_zero_ess = nz, x_bar_gf = xbar, x_sol = x0,
     reported = [], written = []\<rparr>"







subsection \<open>Sample surroundings for concrete runs\<close>

text \<open>
  A command line the parser accepts, with every file present; and a library whose
  vectors carry no data and whose Newton iteration reports convergence (or, for
  \<open>never_converging\<close>, failure) at every step.
\<close>

definition all_files_present :: run_env where
  "all_files_present =
    \<lparr>args_Good = True, ifstream_opens = (\<lambda>name. True),
     Mesh_from_file_returns = (\<lambda>name. True)\<rparr>"

definition grain_file_missing :: run_env where
  "grain_file_missing =
    \<lparr>args_Good = True, ifstream_opens = (\<lambda>name. name \<noteq> ''grains.txt''),
     Mesh_from_file_returns = (\<lambda>name. True)\<rparr>"


definition never_converging :: "(unit, unit) mfem_ops" where
  "never_converging =
    \<lparr>ProjectBdrCoefficient = (\<lambda>tm bdr g. g), add_gf = (\<lambda>a b. b),
     GetTrueDofs = (\<lambda>g. ()), Distribute = (\<lambda>x. ()), subtract_gf = (\<lambda>a b. b),
     newton_Mult = (\<lambda>k x. (x, False))\<rparr>"

text \<open>
  A mesh of one element with attribute 1 and one quadrature point, for three values per
  point: \<open>SetSpace\<close> sizes the array to three entries and the element's values begin at
  position 0.
\<close>

definition one_element_mesh :: grain_lib where
  "one_element_mesh =
    \<lparr>GetNE = 1, GetAttribute = (\<lambda>i. 1), attributes = [1, 2], ir_GetNPoints = (\<lambda>i. 1),
     SetSpace = (\<lambda>d q. \<lparr>vdim = d, qf_data = replicate 3 0\<rparr>),
     GetElementValues = (\<lambda>i q. 0)\<rparr>"

subsection \<open>The rounding is to a nearest double\<close>

lemma pow2_pos: "0 < pow2 e"
  by (simp add: pow2_def)

lemma pow2_power_int: "pow2 e = power_int 2 e"
  by (simp add: pow2_def power_int_def inverse_eq_divide power_one_over)

lemma pow2_add: "pow2 (a + b) = pow2 a * pow2 b"
  by (simp add: pow2_power_int power_int_add)

lemma pow2_mono: "a \<le> b \<Longrightarrow> pow2 a \<le> pow2 b"
  by (simp add: pow2_power_int power_int_increasing)

lemma round_half_even_error: "\<bar>of_int (round_half_even y) - y\<bar> \<le> 1 / 2"
proof -
  have "of_int \<lfloor>y\<rfloor> \<le> y" "y < of_int \<lfloor>y\<rfloor> + 1"
    by linarith+
  then show ?thesis
    by (auto simp add: round_half_even_def Let_def)
qed

lemma bitlen_pos: "0 < n \<Longrightarrow> 1 \<le> bitlen n"
  using bitlen_eq_zero_iff [of n] bitlen_nonneg [of n] by linarith

lemma binade_bounds_large:
  assumes "1 \<le> a"
  shows "pow2 (bitlen \<lfloor>a\<rfloor> - 1) \<le> a \<and> a < pow2 (bitlen \<lfloor>a\<rfloor> - 1 + 1)"
proof -
  let ?n = "\<lfloor>a\<rfloor>"
  from assms have n: "0 < ?n" by simp
  then have b: "1 \<le> bitlen ?n" by (rule bitlen_pos)
  from bitlen_bounds [OF n] have lo: "2 ^ nat (bitlen ?n - 1) \<le> ?n"
    and hi: "?n < 2 ^ nat (bitlen ?n)" by simp_all
  have "(2 ^ nat (bitlen ?n - 1) :: rat) = of_int (2 ^ nat (bitlen ?n - 1))" by simp
  also from lo have "(of_int (2 ^ nat (bitlen ?n - 1)) :: rat) \<le> of_int ?n"
    by (simp only: of_int_le_iff)
  also have "of_int ?n \<le> a" by simp
  finally have below: "pow2 (bitlen ?n - 1) \<le> a"
    using b by (simp add: pow2_def)
  from hi have h: "?n + 1 \<le> 2 ^ nat (bitlen ?n)" by simp
  have "a < of_int (?n + 1)" by linarith
  also from h have "(of_int (?n + 1) :: rat) \<le> of_int (2 ^ nat (bitlen ?n))"
    by (simp only: of_int_le_iff)
  also have "(of_int (2 ^ nat (bitlen ?n)) :: rat) = 2 ^ nat (bitlen ?n)" by simp
  finally have above: "a < pow2 (bitlen ?n - 1 + 1)"
    using b by (simp add: pow2_def)
  from below above show ?thesis ..
qed

lemma binade_bounds_small:
  assumes "0 < a" and "a < 1"
  shows "pow2 (- bitlen (\<lceil>1 / a\<rceil> - 1)) \<le> a
     \<and> a < pow2 (- bitlen (\<lceil>1 / a\<rceil> - 1) + 1)"
proof -
  let ?m = "\<lceil>1 / a\<rceil> - 1"
  let ?k = "bitlen ?m"
  from assms have "1 < 1 / a" by simp
  then have m: "0 < ?m" by (simp add: less_ceiling_iff)
  then have k: "1 \<le> ?k" by (rule bitlen_pos)
  from bitlen_bounds [OF m] have lo: "2 ^ nat (?k - 1) \<le> ?m"
    and hi: "?m < 2 ^ nat ?k" by simp_all
  from hi have c: "\<lceil>1 / a\<rceil> \<le> 2 ^ nat ?k" by simp
  have "1 / a \<le> of_int \<lceil>1 / a\<rceil>" by (rule le_of_int_ceiling)
  also from c have "(of_int \<lceil>1 / a\<rceil> :: rat) \<le> of_int (2 ^ nat ?k)"
    by (simp only: of_int_le_iff)
  also have "(of_int (2 ^ nat ?k) :: rat) = 2 ^ nat ?k" by simp
  finally have "1 / a \<le> 2 ^ nat ?k" .
  with assms(1) have "1 \<le> a * 2 ^ nat ?k"
    by (simp add: field_simps)
  then have "1 / 2 ^ nat ?k \<le> a"
    by (simp add: field_simps)
  then have below: "pow2 (- ?k) \<le> a"
    using k by (simp add: pow2_def)
  have "(2 ^ nat (?k - 1) :: rat) = of_int (2 ^ nat (?k - 1))" by simp
  also from lo have "(of_int (2 ^ nat (?k - 1)) :: rat) \<le> of_int ?m"
    by (simp only: of_int_le_iff)
  also have "of_int ?m < 1 / a" by linarith
  finally have "2 ^ nat (?k - 1) < 1 / a" .
  with assms(1) have lt: "a * 2 ^ nat (?k - 1) < 1"
    by (simp add: field_simps)
  have above: "a < pow2 (- ?k + 1)"
  proof (cases "?k = 1")
    case True
    with assms(2) show ?thesis by (simp add: pow2_def)
  next
    case False
    with k have "1 < ?k" by simp
    then have p: "pow2 (- ?k + 1) = 1 / 2 ^ nat (?k - 1)"
      by (simp add: pow2_def)
    from lt have "a < 1 / 2 ^ nat (?k - 1)"
      by (simp add: field_simps)
    with p show ?thesis by (simp only:)
  qed
  from below above show ?thesis ..
qed

text \<open>\<open>binade\<close> is the exponent of the power of two at or below the magnitude.\<close>

lemma binade_bounds:
  assumes "x \<noteq> 0"
  shows "pow2 (binade x) \<le> \<bar>x\<bar> \<and> \<bar>x\<bar> < pow2 (binade x + 1)"
proof (cases "1 \<le> \<bar>x\<bar>")
  case True
  with binade_bounds_large [OF True] show ?thesis
    by (simp add: binade_def Let_def)
next
  case False
  with assms have "0 < \<bar>x\<bar>" "\<bar>x\<bar> < 1" by simp_all
  from binade_bounds_small [OF this] False show ?thesis
    by (simp add: binade_def Let_def)
qed

text \<open>
  \<open>fl x\<close> is an integer multiple of the spacing of the doubles around \<open>x\<close>, with a
  significand of at most 53 bits, and no further from \<open>x\<close> than half that spacing.
\<close>

lemma fl_significand:
  "\<exists>m. fl x = of_int m * pow2 (max (binade x) (- 1022) - 52) \<and> \<bar>m\<bar> \<le> 2 ^ 53"
proof (cases "x = 0")
  case True
  then show ?thesis by (auto simp add: fl_def intro: exI [of _ 0])
next
  case False
  let ?e = "max (binade x) (- 1022)"
  let ?u = "pow2 (?e - 52)"
  let ?m = "round_half_even (x / ?u)"
  have u: "0 < ?u" by (rule pow2_pos)
  from binade_bounds [OF False] have "\<bar>x\<bar> < pow2 (binade x + 1)" ..
  also have "\<dots> \<le> pow2 (?e + 1)" by (rule pow2_mono) simp
  also have "pow2 (?e + 1) = pow2 (53 + (?e - 52))" by (simp add: algebra_simps)
  also have "\<dots> = pow2 53 * ?u" by (rule pow2_add)
  finally have "\<bar>x / ?u\<bar> < pow2 53"
    using u by (simp add: abs_divide field_simps abs_of_pos)
  then have b: "\<bar>x / ?u\<bar> < 2 ^ 53" by (simp add: pow2_def)
  have "\<bar>of_int ?m - x / ?u\<bar> \<le> 1 / 2" by (rule round_half_even_error)
  with b have "\<bar>(of_int ?m :: rat)\<bar> < 2 ^ 53 + 1 / 2" by linarith
  then have "\<bar>(of_int ?m :: rat)\<bar> < of_int (2 ^ 53 + 1)" by simp
  then have "(of_int \<bar>?m\<bar> :: rat) < of_int (2 ^ 53 + 1)" by simp
  then have "\<bar>?m\<bar> < 2 ^ 53 + 1" by (simp only: of_int_less_iff)
  then have "\<bar>?m\<bar> \<le> 2 ^ 53" by simp
  with False show ?thesis by (auto simp add: fl_def Let_def)
qed











subsection \<open>Facts about the validator\<close>

lemma checkMaterialArgs_range: "checkMaterialArgs h u c ge gq gu n \<in> {0, 1}"
  by (simp add: checkMaterialArgs_def checkMaterialArgs_body_def Let_def)

lemma checkMaterialArgs_no_umat:
  "checkMaterialArgs False False True ge gq gu n =
     (if exactly_one_orientation ge gq gu \<and> 1 \<le> n then 0 else 1)"
  by (auto simp add: checkMaterialArgs_def checkMaterialArgs_body_def Let_def
        exactly_one_orientation_def)

lemma checkMaterialArgs_umat_cp: "checkMaterialArgs False True True ge gq gu n = 1"
  by (simp add: checkMaterialArgs_def checkMaterialArgs_body_def Let_def)

text \<open>
  Claim C7. With the crystal-plasticity flag set and the hyperelastic flag clear,
  \<open>checkMaterialArgs\<close> returns 1 unless exactly one orientation representation is chosen and
  \<open>ngrains\<close> is at least 1. In particular it returns 1 for crystal plasticity with no
  orientation flag and five grains, and for crystal plasticity with both the Euler and
  the quaternion flag.
\<close>

theorem checkMaterialArgs_cp_requires_one_orientation:
  "(\<not> (exactly_one_orientation ge gq gu \<and> 1 \<le> n) \<longrightarrow>
      checkMaterialArgs False u True ge gq gu n = 1)
   \<and> checkMaterialArgs False u True False False False 5 = 1
   \<and> checkMaterialArgs False u True True True gu n = 1"
  by (cases u) (auto simp add: checkMaterialArgs_def checkMaterialArgs_body_def Let_def
        exactly_one_orientation_def)

theorem checkMaterialArgs_cp_requires_one_orientation_witness:
  "\<not> (exactly_one_orientation True False True \<and> (1::int) \<le> 5)
   \<and> checkMaterialArgs False False True True False True 5 = 1
   \<and> checkMaterialArgs False True True False False False 5 = 1
   \<and> checkMaterialArgs False False True True True False 0 = 1"
  using checkMaterialArgs_cp_requires_one_orientation [of True False True 5 False]
    checkMaterialArgs_cp_requires_one_orientation [of False False False 5 True]
    checkMaterialArgs_cp_requires_one_orientation [of False False False 0 False]
  by (simp add: exactly_one_orientation_def)


subsection \<open>The caller's variables across the validation\<close>

lemma main_inputs_Proceed:
  "main_inputs env v = (evs, Proceed v' e) \<Longrightarrow> v' = v \<and> e = call_checkMaterialArgs v"
  by (auto simp add: main_inputs_def main_open_files_def main_validate_def Let_def
        split: if_splits)

text \<open>
  Claim C10. \<open>checkMaterialArgs\<close> takes its seven arguments by value: it returns 0 or 1
  for every input, and whenever \<open>main\<close> gets past the opening of the input files, its own
  variables are the ones parsed from the command line and \<open>err\<close> is the value returned,
  whatever the validator assigned to its copies.
\<close>

theorem checkMaterialArgs_leaves_caller_flags:
  "checkMaterialArgs h u c ge gq gu n \<in> {0, 1}
   \<and> (main_inputs env v = (evs, Proceed v' e) \<longrightarrow>
        v' = v \<and>
        e = checkMaterialArgs (hyperelastic v) (umat v) (cp v) (grain_euler v) (grain_q v)
              (grain_uniform v) (ngrains v))"
  using checkMaterialArgs_range [of h u c ge gq gu n] main_inputs_Proceed [of env v evs v' e]
  by (simp add: call_checkMaterialArgs_def)

theorem checkMaterialArgs_leaves_caller_flags_witness:
  "main_inputs all_files_present ((default_vars 0)\<lparr>hyperelastic := True, umat := True\<rparr>) =
     ([PrintOptions, Cout ''Hyperelastic set to true; using Neohookean model''],
      Proceed ((default_vars 0)\<lparr>hyperelastic := True, umat := True\<rparr>) 0)
   \<and> \<not> umat (snd (snd (checkMaterialArgs_body
          (material_args.truncate ((default_vars 0)\<lparr>hyperelastic := True, umat := True\<rparr>)))))
   \<and> checkMaterialArgs True True False False False False 0 \<in> {0, 1}"
  using checkMaterialArgs_leaves_caller_flags
    [of True True False False False False 0 all_files_present
       "(default_vars 0)\<lparr>hyperelastic := True, umat := True\<rparr>"
       "[PrintOptions, Cout ''Hyperelastic set to true; using Neohookean model'']"
       "(default_vars 0)\<lparr>hyperelastic := True, umat := True\<rparr>" 0]
  by (simp add: main_inputs_def main_open_files_def main_validate_def main_grain_file_def
        call_checkMaterialArgs_def cout_checkMaterialArgs_def checkMaterialArgs_def
        checkMaterialArgs_body_def material_args.defs default_vars_def all_files_present_def
        Let_def)

subsection \<open>Precedence of the hyperelastic flag\<close>

text \<open>
  Claim C1, at the command line \<open>-hyperel -umat\<close> with every file present. The validator
  clears \<open>umat\<close> in its own copy and announces the Neo-Hookean model, \<open>main\<close> goes on with
  \<open>umat\<close> still true, and lines 588-598 of the constructor, which test \<open>umat\<close> first, bind
  the Abaqus UMAT model and the user-defined integrator.
\<close>

theorem hyperelastic_with_umat_binds_umat:
  "\<not> umat (snd (snd (checkMaterialArgs_body
        (material_args.truncate ((default_vars 0)\<lparr>hyperelastic := True, umat := True\<rparr>)))))
   \<and> main_inputs all_files_present ((default_vars 0)\<lparr>hyperelastic := True, umat := True\<rparr>) =
       ([PrintOptions, Cout ''Hyperelastic set to true; using Neohookean model''],
        Proceed ((default_vars 0)\<lparr>hyperelastic := True, umat := True\<rparr>) 0)
   \<and> umat ((default_vars 0)\<lparr>hyperelastic := True, umat := True\<rparr>)
   \<and> ctor_model (umat ((default_vars 0)\<lparr>hyperelastic := True, umat := True\<rparr>))
        (hyperelastic ((default_vars 0)\<lparr>hyperelastic := True, umat := True\<rparr>))
        (ctor_new_Hform after_member_init) =
       Inr \<lparr>Hform = Ptr \<lparr>EssentialBC = None,
                         DomainIntegrators = [UserDefinedNLFIntegrator AbaqusUmatModel]\<rparr>,
            model = Ptr AbaqusUmatModel, J_solver = Uninit, J_prec = Uninit,
            newton_solver = None\<rparr>"
  by (simp add: main_inputs_def main_open_files_def main_validate_def main_grain_file_def
        call_checkMaterialArgs_def cout_checkMaterialArgs_def checkMaterialArgs_def
        checkMaterialArgs_body_def material_args.defs default_vars_def all_files_present_def
        ctor_model_def ctor_new_Hform_def after_member_init_def deref_def Let_def)


subsection \<open>Continuing after an inconsistent material input\<close>

lemma main_validate_never_returns:
  "args_Good env \<Longrightarrow> snd (main_inputs env v) = snd (main_open_files env v (call_checkMaterialArgs v))"
  by (simp add: main_inputs_def main_validate_def Let_def)

lemma main_validate_reports:
  "args_Good env \<Longrightarrow> call_checkMaterialArgs v = 1 \<Longrightarrow> myid v = 0 \<Longrightarrow>
     Cerr ''Inconsistent material input; check args'' \<in> set (fst (main_inputs env v))"
  by (simp add: main_inputs_def main_validate_def Let_def)

text \<open>
  Claim C8. When the command line parses and \<open>checkMaterialArgs\<close> returns 1, rank 0 writes
  the message to \<open>cerr\<close>, and the run goes on to the opening of the mesh exactly as it
  would otherwise: with a readable mesh file it reaches line 288 with the flags as they
  were given and \<open>err = 1\<close>, and it never returns the status 1.
\<close>

theorem inconsistent_material_input_continues:
  assumes "args_Good env" and "call_checkMaterialArgs v = 1"
  shows "(myid v = 0 \<longrightarrow>
            Cerr ''Inconsistent material input; check args'' \<in> set (fst (main_inputs env v)))
     \<and> snd (main_inputs env v) = snd (main_open_files env v 1)
     \<and> snd (main_inputs env v) \<noteq> Return 1
     \<and> (\<not> cubit v \<and> ifstream_opens env (mesh_file v) \<longrightarrow>
          snd (main_inputs env v) = Proceed v 1)"
proof -
  have open_files: "snd (main_inputs env v) = snd (main_open_files env v 1)"
    using assms main_validate_never_returns [of env v] by simp
  have "snd (main_open_files env v 1) \<noteq> Return 1"
    by (simp add: main_open_files_def)
  moreover have "\<not> cubit v \<and> ifstream_opens env (mesh_file v) \<longrightarrow>
      snd (main_open_files env v 1) = Proceed v 1"
    by (simp add: main_open_files_def)
  ultimately show ?thesis
    using open_files main_validate_reports [OF assms] by simp
qed

theorem inconsistent_material_input_continues_witness:
  "args_Good all_files_present
   \<and> call_checkMaterialArgs ((default_vars 0)\<lparr>cp := True, ngrains := 5\<rparr>) = 1
   \<and> Cerr ''Inconsistent material input; check args''
        \<in> set (fst (main_inputs all_files_present ((default_vars 0)\<lparr>cp := True, ngrains := 5\<rparr>)))
   \<and> snd (main_inputs all_files_present ((default_vars 0)\<lparr>cp := True, ngrains := 5\<rparr>)) =
        Proceed ((default_vars 0)\<lparr>cp := True, ngrains := 5\<rparr>) 1"
proof -
  have good: "args_Good all_files_present"
    by (simp add: all_files_present_def)
  have err: "call_checkMaterialArgs ((default_vars 0)\<lparr>cp := True, ngrains := 5\<rparr>) = 1"
    by (simp add: call_checkMaterialArgs_def checkMaterialArgs_def checkMaterialArgs_body_def
          default_vars_def Let_def)
  have rank: "myid ((default_vars 0)\<lparr>cp := True, ngrains := 5\<rparr>) = 0"
    by (simp add: default_vars_def)
  have mesh: "\<not> cubit ((default_vars 0)\<lparr>cp := True, ngrains := 5\<rparr>) \<and>
      ifstream_opens all_files_present (mesh_file ((default_vars 0)\<lparr>cp := True, ngrains := 5\<rparr>))"
    by (simp add: default_vars_def all_files_present_def)
  from inconsistent_material_input_continues [OF good err] rank mesh good err
  show ?thesis by blast
qed

subsection \<open>Missing input files\<close>

lemma missing_mesh_file_returns:
  "args_Good env \<Longrightarrow> \<not> cubit v \<Longrightarrow> \<not> ifstream_opens env (mesh_file v) \<Longrightarrow>
     snd (main_inputs env v) = Return 2 \<and>
     (myid v = 0 \<longrightarrow> Cerr (''Can not open mesh file: '' @ mesh_file v) \<in> set (fst (main_inputs env v)))"
  by (simp add: main_inputs_def main_open_files_def Let_def)

text \<open>
  Claim C3, at the command line \<open>-cp -ge -ng 1\<close> on rank 0 with the mesh file present and
  \<open>grains.txt\<close> missing. The run prints that the grain file cannot be opened and goes on
  to line 288; it does not return. In general the way this part of \<open>main\<close> ends is
  decided by the mesh file alone.
\<close>

theorem missing_grain_file_does_not_exit:
  "main_inputs grain_file_missing
      ((default_vars 0)\<lparr>cp := True, grain_euler := True, ngrains := 1\<rparr>) =
     ([PrintOptions, Cerr ''Can not open grain file: grains.txt''],
      Proceed ((default_vars 0)\<lparr>cp := True, grain_euler := True, ngrains := 1\<rparr>) 0)
   \<and> snd (main_open_files env v e) =
       (if cubit v
        then (if Mesh_from_file_returns env (mesh_file v) then Proceed v e else LibraryFailure)
        else if ifstream_opens env (mesh_file v) then Proceed v e else Return 2)"
  by (simp add: main_inputs_def main_open_files_def main_validate_def main_grain_file_def
        call_checkMaterialArgs_def cout_checkMaterialArgs_def checkMaterialArgs_def
        checkMaterialArgs_body_def material_args.defs default_vars_def grain_file_missing_def
        Let_def)

subsection \<open>The constructor and the pointer Hform\<close>

text \<open>
  Claim C9. Every construction calls \<open>SetEssentialBC\<close> through \<open>Hform\<close> at line 559,
  before line 585 assigns the pointer: whatever the arguments, the constructor
  dereferences a pointer that was never assigned.
\<close>

theorem constructor_uses_Hform_before_assignment:
  "NonlinearMechOperator bdr rel_tol abs_tol iter gmres slu h u = Inl UninitialisedPointer
   \<and> main_construct v n_bdr rel_tol abs_tol iter = Inl UninitialisedPointer"
  by (simp add: main_construct_def NonlinearMechOperator_def ctor_SetEssentialBC_def
        after_member_init_def deref_def)

subsection \<open>The boundary function\<close>

lemma fl_one_tenth: "fl (1 / 10) = 3602879701896397 / 36028797018963968"
  by code_simp

text \<open>
  Claim C6, as stated, at a point of the plane: on a two-dimensional mesh the output
  vector has two entries, the write \<open>y[2] = -.1\<close> of line 750 is outside it, and no
  displacement with a third coordinate is returned.
\<close>

theorem NonZeroBdrFunc_plane_out_of_bounds:
  "NonZeroBdrFunc [0, 0] (fl (1 / 5)) [0, 0] = Inl OutOfBounds"
  by (simp add: NonZeroBdrFunc_def)

text \<open>
  Claim C6, amended. On an output vector with a third entry (a space of dimension three
  or more), \<open>NonZeroBdrFunc\<close> returns, for every point and every time, the vector that is
  \<open>-.1\<close> (the double nearest to one tenth, negated) in the third entry and 0 in every
  other one. The result is the same for any two points and times; the final time is not
  among its arguments.
\<close>

theorem NonZeroBdrFunc_constant:
  assumes "2 < length y"
  shows "\<exists>r. NonZeroBdrFunc xs tm y = Inr r
     \<and> length r = length y
     \<and> r ! 2 = - fl (1 / 10)
     \<and> (\<forall>i < length y. i \<noteq> 2 \<longrightarrow> r ! i = 0)
     \<and> NonZeroBdrFunc xs' tm' y = Inr r"
  using assms by (simp add: NonZeroBdrFunc_def Let_def)

theorem NonZeroBdrFunc_constant_witness:
  "2 < length [7, 8, 9 :: double]
   \<and> NonZeroBdrFunc [0, 0, 1] (fl (1 / 5)) [7, 8, 9] =
       Inr [0, 0, - (3602879701896397 / 36028797018963968)]
   \<and> NonZeroBdrFunc [1, 1, 0] 1 [7, 8, 9] =
       Inr [0, 0, - (3602879701896397 / 36028797018963968)]"
proof -
  have three: "2 < length [7, 8, 9 :: double]" by simp
  from NonZeroBdrFunc_constant [OF three, of "[0, 0, 1]" "fl (1 / 5)" "[1, 1, 0]" 1]
  obtain r where "NonZeroBdrFunc [0, 0, 1] (fl (1 / 5)) [7, 8, 9] = Inr r"
    and "NonZeroBdrFunc [1, 1, 0] 1 [7, 8, 9] = Inr r"
    by blast
  then have same: "NonZeroBdrFunc [1, 1, 0] 1 [7, 8, 9] =
      NonZeroBdrFunc [0, 0, 1] (fl (1 / 5)) [7, 8, 9]"
    by simp
  have "NonZeroBdrFunc [0, 0, 1] (fl (1 / 5)) [7, 8, 9] =
      Inr [0, 0, - (3602879701896397 / 36028797018963968)]"
    by (simp add: NonZeroBdrFunc_def fl_one_tenth numeral_3_eq_3)
  with same three show ?thesis by simp
qed

subsection \<open>Solve and the end of the run\<close>



lemma time_loop_fail:
  "\<not> last_step s \<Longrightarrow> time_step lib v s = Inl e \<Longrightarrow> time_loop lib v s = Some (Inl e)"
  by (subst time_loop.simps) simp

lemma time_step_not_converged:
  assumes "1 < length (ess_bdr s)" and "\<forall>x. \<not> snd (newton_Mult lib (ti s) x)"
  shows "time_step lib v s = Inl (VerifyFailed ''Newton Solver did not converge.'')"
  using assms by (simp add: time_step_def Solve_def Let_def)

text \<open>
  Claim C4. \<open>Solve\<close> returns the vector left by the Newton iteration when the iteration
  converged, and aborts with the failed check otherwise: no vector comes back from a
  solve that did not converge. In the driver, a pass whose solve does not converge ends
  the time loop with that abort; the pass is not repeated and no further pass is made.
\<close>

theorem Solve_aborts_unless_converged:
  "(snd (newton x0) \<longrightarrow> Solve newton x0 = Inr (fst (newton x0)))
   \<and> (\<not> snd (newton x0) \<longrightarrow>
        Solve newton x0 = Inl (VerifyFailed ''Newton Solver did not converge.''))
   \<and> (\<not> last_step s \<and> 1 < length (ess_bdr s) \<and> (\<forall>x. \<not> snd (newton_Mult lib (ti s) x)) \<longrightarrow>
        time_loop lib v s = Some (Inl (VerifyFailed ''Newton Solver did not converge.'')))"
proof -
  have "Solve newton x0 = Inr (fst (newton x0))" if "snd (newton x0)"
    using that by (simp add: Solve_def Let_def)
  moreover have "Solve newton x0 = Inl (VerifyFailed ''Newton Solver did not converge.'')"
    if "\<not> snd (newton x0)"
    using that by (simp add: Solve_def Let_def)
  moreover have "time_loop lib v s = Some (Inl (VerifyFailed ''Newton Solver did not converge.''))"
    if "\<not> last_step s" and "1 < length (ess_bdr s)" and "\<forall>x. \<not> snd (newton_Mult lib (ti s) x)"
    using that(1) time_step_not_converged [OF that(2,3)] by (rule time_loop_fail)
  ultimately show ?thesis by blast
qed

theorem Solve_aborts_unless_converged_witness:
  "Solve (\<lambda>x. (x + 1, True)) (41 :: int) = Inr 42
   \<and> Solve (\<lambda>x. (x + 1, False)) (41 :: int) =
       Inl (VerifyFailed ''Newton Solver did not converge.'')
   \<and> time_loop never_converging (default_vars 0) (loop_start 2 () () () () () ()) =
       Some (Inl (VerifyFailed ''Newton Solver did not converge.''))"
  using Solve_aborts_unless_converged
      [of "\<lambda>x. (x + 1, True)" "41 :: int" "loop_start 2 () () () () () ()" never_converging
          "default_vars 0"]
    Solve_aborts_unless_converged
      [of "\<lambda>x. (x + 1, False)" "41 :: int" "loop_start 2 () () () () () ()" never_converging
          "default_vars 0"]
  by (simp add: loop_start_def never_converging_def)

subsection \<open>The grain loader\<close>

lemma grain_element_null:
  "grain_element lib grain_data grain_offset Null i q =
     (if GetAttribute lib i < 0 \<or> int (length (attributes lib)) \<le> GetAttribute lib i
      then Inl OutOfBounds else Inl NullPointerDereference)"
  by (simp add: grain_element_def deref_def Let_def)

lemma setGrainData_result:
  "setGrainData lib g_orient grain_offset q0 =
     (if GetNE lib = 0 then Inr (SetSpace lib grain_offset q0)
      else if GetAttribute lib 0 < 0 \<or> int (length (attributes lib)) \<le> GetAttribute lib 0
      then Inl OutOfBounds
      else Inl NullPointerDereference)"
proof (cases "GetNE lib = 0")
  case True
  then show ?thesis by (simp add: setGrainData_def)
next
  case False
  then have "[0..<GetNE lib] = 0 # [1..<GetNE lib]"
    by (simp add: upt_conv_Cons)
  with False show ?thesis
    by (simp add: setGrainData_def grain_element_null)
qed

text \<open>
  With a valid pointer the body of the loop would give the one quadrature point of the
  sample mesh the third slice of the table: the element's attribute 1 is used as an index
  into \<open>pmesh->attributes = [1, 2]\<close>, and the entry found there, 2, selects the slice.
\<close>

lemma grain_element_valid_pointer_sample:
  "grain_element one_element_mesh [1, 2, 3, 4, 5, 6, 7, 8, 9] 3 (Ptr ()) 0
     \<lparr>vdim = 3, qf_data = [0, 0, 0]\<rparr> = Inr \<lparr>vdim = 3, qf_data = [7, 8, 9]\<rparr>"
  by code_simp

text \<open>
  Claim C2, on a mesh of one element with attribute 1 and one quadrature point, three
  values per point and a table of three grains. \<open>setGrainData\<close> stops at the first
  element with a null-pointer dereference: line 825 has set the local \<open>matVars\<close> to null,
  and line 849 calls \<open>GetElementValues\<close> through it. No quadrature point receives a
  slice. The same happens on every mesh with at least one element.
\<close>

theorem setGrainData_dereferences_null:
  "setGrainData one_element_mesh [1, 2, 3, 4, 5, 6, 7, 8, 9] 3 \<lparr>vdim = 0, qf_data = []\<rparr> =
     Inl NullPointerDereference
   \<and> setGrainData lib g_orient grain_offset q0 =
       (if GetNE lib = 0 then Inr (SetSpace lib grain_offset q0)
        else if GetAttribute lib 0 < 0 \<or> int (length (attributes lib)) \<le> GetAttribute lib 0
        then Inl OutOfBounds
        else Inl NullPointerDereference)"
  by (simp add: setGrainData_result one_element_mesh_def)


subsection \<open>One pass of the time loop\<close>





subsection \<open>A run that never leaves the loop\<close>







subsection \<open>The run with final time 1.0 and step 0.2\<close>













subsection \<open>Termination for usable step sizes\<close>










text \<open>
  A positive step alone is not enough in double arithmetic: from \<open>t = 2 ^ - 7\<close> a step of
  \<open>2 ^ - 60\<close> is half a spacing, the sum rounds back to \<open>t\<close>, and the exit test for
  \<open>t_final = 1\<close> fails there.
\<close>

lemma next_time_absorbs:
  "next_time (pow2 (- 60)) 1 (pow2 (- 7)) = pow2 (- 7)"
  "\<not> reached_final (pow2 (- 60)) 1 (pow2 (- 7))"
  by code_simp+





end
